theory Spec2Isabelle
  imports Main
begin

section \<open>Domain monitor agents (slot603.js, netpro.js)\<close>

text \<open>
  The repository holds two browser scripts, one per brand. Each script is an
  immediately invoked function with a constant \<open>CONFIG\<close>, the functions
  \<open>getCurrentDomain\<close>, \<open>generateReportData\<close>, \<open>sendReport\<close> and
  \<open>executeAgent\<close>, and a start-up part that registers \<open>executeAgent\<close> on the
  page-load event and on an interval timer.

  The functions of the first script are embedded with \<open>CONFIG\<close> as a parameter;
  the functions of the second script are embedded a second time under the prefix
  \<open>netpro_\<close>. Strings are lists of 8-bit code units (the configuration values and
  host names are ASCII).
\<close>

subsection \<open>Data model\<close>

text \<open>The object literal \<open>CONFIG\<close>.\<close>

record AgentConfig =
  brand :: string
  apiKey :: string
  apiUrl :: string
  localApiUrl :: string
  expired :: string
  status :: string
  kategori :: string

definition slot603_CONFIG :: AgentConfig where
  "slot603_CONFIG =
     \<lparr>brand = ''slot603'',
      apiKey = ''SLOT603-KEY'',
      apiUrl = ''https://www.dewipemikat.com/api/report'',
      localApiUrl = ''http://localhost:8000/api/report'',
      expired = ''2025-08-01'',
      status = ''aktif'',
      kategori = ''normal''\<rparr>"

definition netpro_CONFIG :: AgentConfig where
  "netpro_CONFIG =
     \<lparr>brand = ''netpro'',
      apiKey = ''NETPRO-KEY'',
      apiUrl = ''https://www.dewipemikat.com/api/report'',
      localApiUrl = ''http://localhost:8000/api/report'',
      expired = ''2025-08-01'',
      status = ''aktif'',
      kategori = ''normal''\<rparr>"

text \<open>
  The object literal returned by \<open>generateReportData\<close>. Its properties
  \<open>brand\<close>, \<open>expired\<close>, \<open>status\<close> and \<open>kategori\<close> carry the prefix
  \<open>report_\<close> here, since the configuration already uses these names; the
  wire names are the ones \<open>JSON_stringify\<close> writes.
\<close>

record ReportRecord =
  report_brand :: string
  domain :: string
  report_expired :: string
  report_status :: string
  report_kategori :: string
  catatan :: string
  api_key :: string

text \<open>
  What \<open>fetch\<close> is called with (the property \<open>method\<close> of its second
  argument is the field \<open>http_method\<close>), and what it settles to.
\<close>

record request =
  url :: string
  http_method :: string
  headers :: "(string \<times> string) list"
  body :: string

record response =
  ok :: bool
  http_status :: nat
  response_body :: string

datatype js_error = JsError string string

datatype fetch_outcome = Resolved response | Rejected js_error

text \<open>
  One exchange of the HTTP client: how the promise of \<open>fetch\<close> settles, and the
  milliseconds that pass until it does.
\<close>

record exchange =
  outcome :: fetch_outcome
  elapsed :: nat

text \<open>The console: the method called and its arguments.\<close>

datatype level = Log | Warn | Error

datatype console_arg =
    Str string
  | Obj ReportRecord
  | Num nat
  | Err js_error

datatype event =
    Console level "console_arg list"
  | FetchCall request

text \<open>
  \<open>document.readyState\<close>, and the closures the script hands to the page: the
  only function ever registered is \<open>executeAgent\<close>, which closes over \<open>CONFIG\<close>.
\<close>

datatype ready_state = Loading | Interactive | Complete

datatype callback = ExecuteAgent AgentConfig

text \<open>
  The page the script runs in. \<open>hostname\<close> is \<open>window.location.hostname\<close>,
  \<open>now\<close> the time value a \<open>new Date()\<close> reads (milliseconds since the epoch),
  \<open>http\<close> the behaviour of the HTTP client at its \<open>n\<close>-th call, \<open>fetch_count\<close>
  the number of calls made so far, \<open>trace\<close> the console output and HTTP
  requests in the order they happened, \<open>listeners\<close> and \<open>timers\<close> what was
  registered with \<open>document.addEventListener\<close> and \<open>setInterval\<close>.
\<close>

record world =
  hostname :: string
  now :: int
  http :: "nat \<Rightarrow> request \<Rightarrow> exchange"
  fetch_count :: nat
  trace :: "event list"
  readyState :: ready_state
  listeners :: "(string \<times> callback) list"
  timers :: "(callback \<times> nat) list"

subsection \<open>Computations that may throw\<close>

text \<open>
  A JavaScript computation changes the page and either completes with a value
  (\<open>Inr\<close>) or throws (\<open>Inl\<close>). An \<open>await\<close> of a rejected promise throws at
  the \<open>await\<close>. An async function is run to its completion at the call: a
  cycle is one uninterrupted run, and what other code does on the page while a
  cycle waits for \<open>fetch\<close> is not part of the model. Every \<open>fetch\<close> settles,
  fulfilled or rejected.
\<close>

type_synonym 'a js = "world \<Rightarrow> (js_error + 'a) \<times> world"

definition return_js :: "'a \<Rightarrow> 'a js" where
  "return_js x = (\<lambda>w. (Inr x, w))"

definition bind_js :: "'a js \<Rightarrow> ('a \<Rightarrow> 'b js) \<Rightarrow> 'b js" where
  "bind_js m f =
     (\<lambda>w. case m w of
            (Inl e, w') \<Rightarrow> (Inl e, w')
          | (Inr x, w') \<Rightarrow> f x w')"

definition try_catch :: "'a js \<Rightarrow> (js_error \<Rightarrow> 'a js) \<Rightarrow> 'a js" where
  "try_catch m h =
     (\<lambda>w. case m w of
            (Inl e, w') \<Rightarrow> h e w'
          | (Inr x, w') \<Rightarrow> (Inr x, w'))"

subsection \<open>Built-ins of the platform\<close>

text \<open>\<open>console.log\<close>, \<open>console.warn\<close>, \<open>console.error\<close>.\<close>

definition console :: "level \<Rightarrow> console_arg list \<Rightarrow> unit js" where
  "console l args = (\<lambda>w. (Inr (), w\<lparr>trace := trace w @ [Console l args]\<rparr>))"

text \<open>
  \<open>await fetch(url, init)\<close>: the request is sent, time passes, and the promise
  is fulfilled with a response or rejected.
\<close>

definition fetch :: "request \<Rightarrow> response js" where
  "fetch req =
     (\<lambda>w. let x = http w (fetch_count w) req;
              w' = w\<lparr>trace := trace w @ [FetchCall req],
                     fetch_count := Suc (fetch_count w),
                     now := now w + int (elapsed x)\<rparr>
          in case outcome x of
               Resolved r \<Rightarrow> (Inr r, w')
             | Rejected e \<Rightarrow> (Inl e, w'))"

text \<open>
  \<open>Date.prototype.toISOString\<close> of a time value: \<open>YYYY-MM-DDTHH:mm:ss.sssZ\<close>
  in UTC, the year written with a sign and six digits outside 0 to 9999.
\<close>

definition digit :: "int \<Rightarrow> char" where
  "digit n = ''0123456789'' ! nat (n mod 10)"

definition pad2 :: "int \<Rightarrow> string" where
  "pad2 n = [digit (n div 10), digit n]"

definition pad3 :: "int \<Rightarrow> string" where
  "pad3 n = [digit (n div 100), digit (n div 10), digit n]"

definition pad4 :: "int \<Rightarrow> string" where
  "pad4 n = [digit (n div 1000), digit (n div 100), digit (n div 10), digit n]"

definition pad6 :: "int \<Rightarrow> string" where
  "pad6 n = [digit (n div 100000), digit (n div 10000), digit (n div 1000),
             digit (n div 100), digit (n div 10), digit n]"

text \<open>Year, month and day of the month of a day number counted from 1970-01-01.\<close>

definition civil_from_days :: "int \<Rightarrow> int \<times> int \<times> int" where
  "civil_from_days days =
     (let z = days + 719468;
          era = z div 146097;
          doe = z mod 146097;
          yoe = (doe - doe div 1460 + doe div 36524 - doe div 146096) div 365;
          doy = doe - (365 * yoe + yoe div 4 - yoe div 100);
          mp = (5 * doy + 2) div 153;
          d = doy - (153 * mp + 2) div 5 + 1;
          m = (if mp < 10 then mp + 3 else mp - 9);
          y = yoe + era * 400 + (if m \<le> 2 then 1 else 0)
      in (y, m, d))"

definition iso_year :: "int \<Rightarrow> string" where
  "iso_year y =
     (if 0 \<le> y \<and> y \<le> 9999 then pad4 y
      else if y < 0 then CHR ''-'' # pad6 (- y)
      else CHR ''+'' # pad6 y)"

definition toISOString :: "int \<Rightarrow> string" where
  "toISOString t =
     (let (y, m, d) = civil_from_days (t div 86400000);
          ms = t mod 86400000
      in iso_year y @ ''-'' @ pad2 m @ ''-'' @ pad2 d @ ''T''
         @ pad2 (ms div 3600000) @ '':'' @ pad2 (ms div 60000 mod 60) @ '':''
         @ pad2 (ms div 1000 mod 60) @ ''.'' @ pad3 (ms mod 1000) @ ''Z'')"

text \<open>
  \<open>JSON.stringify\<close> of a record of strings: the properties in the order of
  the object literal, keys and values quoted, no white space. Quoting escapes
  the double quote (0x22), the backslash (0x5C) and the control characters.
\<close>

definition hex_digit :: "nat \<Rightarrow> char" where
  "hex_digit n = ''0123456789abcdef'' ! (n mod 16)"

definition QuoteJSONChar :: "char \<Rightarrow> string" where
  "QuoteJSONChar c =
     (if c = CHR 0x08 then [CHR 0x5C, CHR ''b'']
      else if c = CHR 0x09 then [CHR 0x5C, CHR ''t'']
      else if c = CHR 0x0A then [CHR 0x5C, CHR ''n'']
      else if c = CHR 0x0C then [CHR 0x5C, CHR ''f'']
      else if c = CHR 0x0D then [CHR 0x5C, CHR ''r'']
      else if c = CHR 0x22 then [CHR 0x5C, CHR 0x22]
      else if c = CHR 0x5C then [CHR 0x5C, CHR 0x5C]
      else if (of_char c :: nat) < 32
        then [CHR 0x5C, CHR ''u'', CHR ''0'', CHR ''0'',
              hex_digit (of_char c div 16), hex_digit (of_char c)]
      else [c])"

definition QuoteJSONString :: "string \<Rightarrow> string" where
  "QuoteJSONString s = CHR 0x22 # concat (map QuoteJSONChar s) @ [CHR 0x22]"

definition json_member :: "string \<Rightarrow> string \<Rightarrow> string" where
  "json_member k v = QuoteJSONString k @ '':'' @ QuoteJSONString v"

definition JSON_stringify :: "ReportRecord \<Rightarrow> string" where
  "JSON_stringify data =
     ''{'' @ json_member ''brand'' (report_brand data)
     @ '','' @ json_member ''domain'' (domain data)
     @ '','' @ json_member ''expired'' (report_expired data)
     @ '','' @ json_member ''status'' (report_status data)
     @ '','' @ json_member ''kategori'' (report_kategori data)
     @ '','' @ json_member ''catatan'' (catatan data)
     @ '','' @ json_member ''api_key'' (api_key data)
     @ ''}''"

subsection \<open>The agent (first script)\<close>

text \<open>\<open>function getCurrentDomain()\<close>: reads \<open>window.location.hostname\<close>.\<close>

definition getCurrentDomain :: "string js" where
  "getCurrentDomain = (\<lambda>w. (Inr (hostname w), w))"

text \<open>\<open>new Date().toISOString()\<close>.\<close>

definition new_Date_toISOString :: "string js" where
  "new_Date_toISOString = (\<lambda>w. (Inr (toISOString (now w)), w))"

text \<open>
  \<open>function generateReportData()\<close>: the properties are evaluated in the order
  of the object literal.
\<close>

definition generateReportData :: "AgentConfig \<Rightarrow> ReportRecord js" where
  "generateReportData CONFIG =
     bind_js getCurrentDomain (\<lambda>d.
     bind_js new_Date_toISOString (\<lambda>t.
     return_js
       \<lparr>report_brand = brand CONFIG,
        domain = d,
        report_expired = expired CONFIG,
        report_status = status CONFIG,
        report_kategori = kategori CONFIG,
        catatan = ''Report from JS Agent - '' @ t,
        api_key = apiKey CONFIG\<rparr>))"

text \<open>
  \<open>async function sendReport(data, apiUrl)\<close>: the whole body is inside
  \<open>try\<close>, the \<open>catch\<close> clause logs and returns \<open>false\<close>. The
  parameter \<open>apiUrl\<close> is written \<open>apiUrl'\<close>, the plain name being the
  property of \<open>CONFIG\<close>.
\<close>

definition sendReport :: "AgentConfig \<Rightarrow> ReportRecord \<Rightarrow> string \<Rightarrow> bool js" where
  "sendReport CONFIG data apiUrl' =
     try_catch
       (bind_js
          (fetch \<lparr>url = apiUrl',
                  http_method = ''POST'',
                  headers = [(''Content-Type'', ''application/json''),
                             (''User-Agent'', ''DomainMonitor-Agent/1.0'')],
                  body = JSON_stringify data\<rparr>)
          (\<lambda>response.
             if ok response
             then bind_js
                    (console Log
                       [Str (''['' @ brand CONFIG @ ''] Report sent successfully to '' @ apiUrl')])
                    (\<lambda>_. return_js True)
             else bind_js
                    (console Warn
                       [Str (''['' @ brand CONFIG @ ''] Failed to send report to '' @ apiUrl' @ '':''),
                        Num (http_status response)])
                    (\<lambda>_. return_js False)))
       (\<lambda>error.
          bind_js
            (console Error
               [Str (''['' @ brand CONFIG @ ''] Error sending report to '' @ apiUrl' @ '':''),
                Err error])
            (\<lambda>_. return_js False))"

text \<open>\<open>async function executeAgent()\<close>.\<close>

definition executeAgent :: "AgentConfig \<Rightarrow> unit js" where
  "executeAgent CONFIG =
     bind_js (console Log [Str (''['' @ brand CONFIG @ ''] Domain Monitor Agent starting...'')])
       (\<lambda>_.
     bind_js (generateReportData CONFIG) (\<lambda>reportData.
     bind_js (console Log [Str (''['' @ brand CONFIG @ ''] Generated report data:''),
                           Obj reportData])
       (\<lambda>_.
     bind_js (sendReport CONFIG reportData (apiUrl CONFIG)) (\<lambda>success.
     bind_js
       (if \<not> success
        then bind_js
               (console Log [Str (''['' @ brand CONFIG @ ''] Trying local API as fallback...'')])
               (\<lambda>_. sendReport CONFIG reportData (localApiUrl CONFIG))
        else return_js success)
       (\<lambda>success.
     if success
     then console Log
            [Str (''['' @ brand CONFIG @ ''] Domain monitoring report completed successfully'')]
     else console Error
            [Str (''['' @ brand CONFIG @ ''] Failed to send report to any API endpoint'')])))))"

subsection \<open>Start-up and the page's event loop\<close>

text \<open>
  \<open>document.readyState\<close>, \<open>document.addEventListener\<close> and \<open>setInterval\<close>
  (which returns the timer's id). A call of an async function that is not
  awaited hands back a promise: nothing it throws reaches the caller.
\<close>

definition document_readyState :: "ready_state js" where
  "document_readyState = (\<lambda>w. (Inr (readyState w), w))"

definition addEventListener :: "string \<Rightarrow> callback \<Rightarrow> unit js" where
  "addEventListener ty cb = (\<lambda>w. (Inr (), w\<lparr>listeners := listeners w @ [(ty, cb)]\<rparr>))"

definition setInterval :: "callback \<Rightarrow> nat \<Rightarrow> nat js" where
  "setInterval cb delay =
     (\<lambda>w. (Inr (length (timers w)), w\<lparr>timers := timers w @ [(cb, delay)]\<rparr>))"

definition call_async :: "'a js \<Rightarrow> unit js" where
  "call_async m = (\<lambda>w. (Inr (), snd (m w)))"

text \<open>The statements of the script after the function declarations.\<close>

definition agent_script :: "AgentConfig \<Rightarrow> unit js" where
  "agent_script CONFIG =
     bind_js document_readyState (\<lambda>rs.
     bind_js
       (if rs = Loading
        then addEventListener ''DOMContentLoaded'' (ExecuteAgent CONFIG)
        else call_async (executeAgent CONFIG))
       (\<lambda>_.
     bind_js (setInterval (ExecuteAgent CONFIG) (30 * 60 * 1000)) (\<lambda>_.
     return_js ())))"

text \<open>
  What the page does with the registrations: at \<open>DOMContentLoaded\<close> the
  document stops loading and the listeners of that event run in the order of
  their registration; when an interval timer fires its callback runs and the
  timer stays registered.
\<close>

fun run_callback :: "callback \<Rightarrow> unit js" where
  "run_callback (ExecuteAgent CONFIG) = call_async (executeAgent CONFIG)"

fun run_listeners :: "string \<Rightarrow> (string \<times> callback) list \<Rightarrow> world \<Rightarrow> world" where
  "run_listeners ty [] w = w"
| "run_listeners ty ((ty', cb) # ls) w =
     run_listeners ty ls (if ty' = ty then snd (run_callback cb w) else w)"

datatype page_event = DOMContentLoaded | IntervalFires nat

fun page_step :: "page_event \<Rightarrow> world \<Rightarrow> world" where
  "page_step DOMContentLoaded w =
     run_listeners ''DOMContentLoaded'' (listeners w) (w\<lparr>readyState := Interactive\<rparr>)"
| "page_step (IntervalFires i) w =
     (if i < length (timers w) then snd (run_callback (fst (timers w ! i)) w) else w)"

fun run_page :: "page_event list \<Rightarrow> world \<Rightarrow> world" where
  "run_page [] w = w"
| "run_page (e # es) w = run_page es (page_step e w)"

subsection \<open>The agent (second script)\<close>

text \<open>
  The functions of the second script, again with \<open>CONFIG\<close> as a parameter.
\<close>

definition netpro_getCurrentDomain :: "string js" where
  "netpro_getCurrentDomain = (\<lambda>w. (Inr (hostname w), w))"

definition netpro_generateReportData :: "AgentConfig \<Rightarrow> ReportRecord js" where
  "netpro_generateReportData CONFIG =
     bind_js netpro_getCurrentDomain (\<lambda>d.
     bind_js new_Date_toISOString (\<lambda>t.
     return_js
       \<lparr>report_brand = brand CONFIG,
        domain = d,
        report_expired = expired CONFIG,
        report_status = status CONFIG,
        report_kategori = kategori CONFIG,
        catatan = ''Report from JS Agent - '' @ t,
        api_key = apiKey CONFIG\<rparr>))"

definition netpro_sendReport :: "AgentConfig \<Rightarrow> ReportRecord \<Rightarrow> string \<Rightarrow> bool js" where
  "netpro_sendReport CONFIG data apiUrl' =
     try_catch
       (bind_js
          (fetch \<lparr>url = apiUrl',
                  http_method = ''POST'',
                  headers = [(''Content-Type'', ''application/json''),
                             (''User-Agent'', ''DomainMonitor-Agent/1.0'')],
                  body = JSON_stringify data\<rparr>)
          (\<lambda>response.
             if ok response
             then bind_js
                    (console Log
                       [Str (''['' @ brand CONFIG @ ''] Report sent successfully to '' @ apiUrl')])
                    (\<lambda>_. return_js True)
             else bind_js
                    (console Warn
                       [Str (''['' @ brand CONFIG @ ''] Failed to send report to '' @ apiUrl' @ '':''),
                        Num (http_status response)])
                    (\<lambda>_. return_js False)))
       (\<lambda>error.
          bind_js
            (console Error
               [Str (''['' @ brand CONFIG @ ''] Error sending report to '' @ apiUrl' @ '':''),
                Err error])
            (\<lambda>_. return_js False))"

definition netpro_executeAgent :: "AgentConfig \<Rightarrow> unit js" where
  "netpro_executeAgent CONFIG =
     bind_js (console Log [Str (''['' @ brand CONFIG @ ''] Domain Monitor Agent starting...'')])
       (\<lambda>_.
     bind_js (netpro_generateReportData CONFIG) (\<lambda>reportData.
     bind_js (console Log [Str (''['' @ brand CONFIG @ ''] Generated report data:''),
                           Obj reportData])
       (\<lambda>_.
     bind_js (netpro_sendReport CONFIG reportData (apiUrl CONFIG)) (\<lambda>success.
     bind_js
       (if \<not> success
        then bind_js
               (console Log [Str (''['' @ brand CONFIG @ ''] Trying local API as fallback...'')])
               (\<lambda>_. netpro_sendReport CONFIG reportData (localApiUrl CONFIG))
        else return_js success)
       (\<lambda>success.
     if success
     then console Log
            [Str (''['' @ brand CONFIG @ ''] Domain monitoring report completed successfully'')]
     else console Error
            [Str (''['' @ brand CONFIG @ ''] Failed to send report to any API endpoint'')])))))"

subsection \<open>Observations of a run\<close>

text \<open>
  Names for what the theorems below speak about: the record a cycle builds, the
  request of a delivery, whether an exchange counts as delivered, the console
  lines, the events a cycle appends to the trace, and the two calls of
  \<open>sendReport\<close> inside \<open>executeAgent\<close> on the pages they start from.
\<close>

definition reportData_of :: "AgentConfig \<Rightarrow> world \<Rightarrow> ReportRecord" where
  "reportData_of CONFIG w =
     \<lparr>report_brand = brand CONFIG,
      domain = hostname w,
      report_expired = expired CONFIG,
      report_status = status CONFIG,
      report_kategori = kategori CONFIG,
      catatan = ''Report from JS Agent - '' @ toISOString (now w),
      api_key = apiKey CONFIG\<rparr>"

definition report_request :: "ReportRecord \<Rightarrow> string \<Rightarrow> request" where
  "report_request data u =
     \<lparr>url = u,
      http_method = ''POST'',
      headers = [(''Content-Type'', ''application/json''),
                 (''User-Agent'', ''DomainMonitor-Agent/1.0'')],
      body = JSON_stringify data\<rparr>"

definition delivered :: "exchange \<Rightarrow> bool" where
  "delivered x = (case outcome x of Resolved r \<Rightarrow> ok r | Rejected e \<Rightarrow> False)"

definition outcome_line :: "AgentConfig \<Rightarrow> string \<Rightarrow> exchange \<Rightarrow> event" where
  "outcome_line CONFIG u x =
     (case outcome x of
        Resolved r \<Rightarrow>
          if ok r
          then Console Log [Str (''['' @ brand CONFIG @ ''] Report sent successfully to '' @ u)]
          else Console Warn [Str (''['' @ brand CONFIG @ ''] Failed to send report to '' @ u @ '':''),
                             Num (http_status r)]
      | Rejected e \<Rightarrow>
          Console Error [Str (''['' @ brand CONFIG @ ''] Error sending report to '' @ u @ '':''),
                         Err e])"

fun fetch_calls :: "event list \<Rightarrow> request list" where
  "fetch_calls [] = []"
| "fetch_calls (Console l args # es) = fetch_calls es"
| "fetch_calls (FetchCall req # es) = req # fetch_calls es"

definition new_events :: "world \<Rightarrow> world \<Rightarrow> event list" where
  "new_events w w' = drop (length (trace w)) (trace w')"

definition cycle_events :: "AgentConfig \<Rightarrow> world \<Rightarrow> event list" where
  "cycle_events CONFIG w = new_events w (snd (executeAgent CONFIG w))"

definition starting_line :: "AgentConfig \<Rightarrow> event" where
  "starting_line CONFIG =
     Console Log [Str (''['' @ brand CONFIG @ ''] Domain Monitor Agent starting...'')]"

definition generated_line :: "AgentConfig \<Rightarrow> ReportRecord \<Rightarrow> event" where
  "generated_line CONFIG data =
     Console Log [Str (''['' @ brand CONFIG @ ''] Generated report data:''), Obj data]"

definition fallback_line :: "AgentConfig \<Rightarrow> event" where
  "fallback_line CONFIG =
     Console Log [Str (''['' @ brand CONFIG @ ''] Trying local API as fallback...'')]"

definition success_line :: "AgentConfig \<Rightarrow> event" where
  "success_line CONFIG =
     Console Log
       [Str (''['' @ brand CONFIG @ ''] Domain monitoring report completed successfully'')]"

definition failure_line :: "AgentConfig \<Rightarrow> event" where
  "failure_line CONFIG =
     Console Error [Str (''['' @ brand CONFIG @ ''] Failed to send report to any API endpoint'')]"

definition at_primary :: "AgentConfig \<Rightarrow> world \<Rightarrow> world" where
  "at_primary CONFIG w =
     w\<lparr>trace := trace w @ [starting_line CONFIG, generated_line CONFIG (reportData_of CONFIG w)]\<rparr>"

definition primary_attempt :: "AgentConfig \<Rightarrow> world \<Rightarrow> (js_error + bool) \<times> world" where
  "primary_attempt CONFIG w =
     sendReport CONFIG (reportData_of CONFIG w) (apiUrl CONFIG) (at_primary CONFIG w)"

definition at_fallback :: "AgentConfig \<Rightarrow> world \<Rightarrow> world" where
  "at_fallback CONFIG w =
     (let w' = snd (primary_attempt CONFIG w)
      in w'\<lparr>trace := trace w' @ [fallback_line CONFIG]\<rparr>)"

definition fallback_attempt :: "AgentConfig \<Rightarrow> world \<Rightarrow> (js_error + bool) \<times> world" where
  "fallback_attempt CONFIG w =
     sendReport CONFIG (reportData_of CONFIG w) (localApiUrl CONFIG) (at_fallback CONFIG w)"

text \<open>
  The shape of an ISO 8601 timestamp in UTC with milliseconds, as a template in
  which \<open>d\<close> stands for a decimal digit: four digits of year, or a sign and
  six.
\<close>

definition is_digit :: "char \<Rightarrow> bool" where
  "is_digit c = (c \<in> set ''0123456789'')"

fun matches :: "string \<Rightarrow> string \<Rightarrow> bool" where
  "matches [] [] = True"
| "matches (p # ps) (c # cs) = ((if p = CHR ''d'' then is_digit c else c = p) \<and> matches ps cs)"
| "matches _ _ = False"

definition iso_8601_shape :: "string \<Rightarrow> bool" where
  "iso_8601_shape s =
     (matches ''dddd-dd-ddTdd:dd:dd.dddZ'' s
      \<or> matches ''+dddddd-dd-ddTdd:dd:dd.dddZ'' s
      \<or> matches ''-dddddd-dd-ddTdd:dd:dd.dddZ'' s)"

text \<open>The double quote, for writing JSON text down.\<close>

definition dq :: string where
  "dq = [CHR 0x22]"

subsection \<open>Example pages\<close>

text \<open>
  Concrete pages for the scenarios: the external API answers 500 and the local
  API 200; every connection is refused; every request is answered 200.
\<close>

definition http_500_then_200 :: "nat \<Rightarrow> request \<Rightarrow> exchange" where
  "http_500_then_200 n req =
     (if url req = ''https://www.dewipemikat.com/api/report''
      then \<lparr>outcome = Resolved \<lparr>ok = False, http_status = 500,
                                 response_body = ''Internal Server Error''\<rparr>,
            elapsed = 120\<rparr>
      else \<lparr>outcome = Resolved \<lparr>ok = True, http_status = 200, response_body = ''{}''\<rparr>,
            elapsed = 80\<rparr>)"

definition http_refused :: "nat \<Rightarrow> request \<Rightarrow> exchange" where
  "http_refused n req =
     \<lparr>outcome = Rejected (JsError ''TypeError'' ''Failed to fetch''), elapsed = 30\<rparr>"

definition http_200 :: "nat \<Rightarrow> request \<Rightarrow> exchange" where
  "http_200 n req =
     \<lparr>outcome = Resolved \<lparr>ok = True, http_status = 200, response_body = ''{}''\<rparr>,
      elapsed = 45\<rparr>"

definition example_page :: "(nat \<Rightarrow> request \<Rightarrow> exchange) \<Rightarrow> world" where
  "example_page h =
     \<lparr>hostname = ''example.com'',
      now = 1700000000000,
      http = h,
      fetch_count = 0,
      trace = [],
      readyState = Complete,
      listeners = [],
      timers = []\<rparr>"

definition loading_page :: world where
  "loading_page =
     \<lparr>hostname = ''example.com'',
      now = 1700000000000,
      http = http_200,
      fetch_count = 0,
      trace = [],
      readyState = Loading,
      listeners = [],
      timers = []\<rparr>"

text \<open>
  A page with the same host name, clock and answers as
  \<open>example_page http_500_then_200\<close>, and everything else different.
\<close>

definition other_page :: world where
  "other_page =
     \<lparr>hostname = ''example.com'',
      now = 1700000000000,
      http = (\<lambda>n req.
                if n = 7
                then \<lparr>outcome = Resolved \<lparr>ok = False, http_status = 500,
                                           response_body = ''Internal Server Error''\<rparr>,
                      elapsed = 900\<rparr>
                else \<lparr>outcome = Resolved \<lparr>ok = True, http_status = 200,
                                           response_body = ''{}''\<rparr>,
                      elapsed = 5\<rparr>),
      fetch_count = 7,
      trace = [Console Warn [Str ''earlier output'']],
      readyState = Interactive,
      listeners = [(''DOMContentLoaded'', ExecuteAgent netpro_CONFIG)],
      timers = [(ExecuteAgent netpro_CONFIG, 1800000)]\<rparr>"

section \<open>Properties\<close>

subsection \<open>What one run does\<close>

lemma generateReportData_run:
  "generateReportData CONFIG w = (Inr (reportData_of CONFIG w), w)"
  by (simp add: generateReportData_def getCurrentDomain_def new_Date_toISOString_def
      bind_js_def return_js_def reportData_of_def)

lemma sendReport_run:
  "sendReport CONFIG data u w =
     (let x = http w (fetch_count w) (report_request data u)
      in (Inr (delivered x),
          w\<lparr>trace := trace w @ [FetchCall (report_request data u), outcome_line CONFIG u x],
            fetch_count := Suc (fetch_count w),
            now := now w + int (elapsed x)\<rparr>))"
  by (simp add: sendReport_def try_catch_def bind_js_def fetch_def console_def return_js_def
      report_request_def delivered_def outcome_line_def Let_def
      split: fetch_outcome.splits)

lemma reportData_of_trace [simp]:
  "reportData_of CONFIG (w\<lparr>trace := t\<rparr>) = reportData_of CONFIG w"
  by (simp add: reportData_of_def)

lemma executeAgent_run:
  "executeAgent CONFIG w =
     (if fst (primary_attempt CONFIG w) = Inr True
      then console Log
             [Str (''['' @ brand CONFIG @ ''] Domain monitoring report completed successfully'')]
             (snd (primary_attempt CONFIG w))
      else if fst (fallback_attempt CONFIG w) = Inr True
      then console Log
             [Str (''['' @ brand CONFIG @ ''] Domain monitoring report completed successfully'')]
             (snd (fallback_attempt CONFIG w))
      else console Error
             [Str (''['' @ brand CONFIG @ ''] Failed to send report to any API endpoint'')]
             (snd (fallback_attempt CONFIG w)))"
  by (simp add: executeAgent_def bind_js_def generateReportData_run console_def return_js_def
      primary_attempt_def fallback_attempt_def at_primary_def at_fallback_def
      starting_line_def generated_line_def fallback_line_def sendReport_run Let_def)

lemma primary_attempt_run:
  "primary_attempt CONFIG w =
     (let r = report_request (reportData_of CONFIG w) (apiUrl CONFIG);
          x = http w (fetch_count w) r
      in (Inr (delivered x),
          w\<lparr>trace := trace w @ [starting_line CONFIG,
                                   generated_line CONFIG (reportData_of CONFIG w),
                                   FetchCall r, outcome_line CONFIG (apiUrl CONFIG) x],
            fetch_count := Suc (fetch_count w),
            now := now w + int (elapsed x)\<rparr>))"
  by (simp add: primary_attempt_def at_primary_def sendReport_run Let_def)

lemma fallback_attempt_run:
  "fallback_attempt CONFIG w =
     (let r1 = report_request (reportData_of CONFIG w) (apiUrl CONFIG);
          x1 = http w (fetch_count w) r1;
          r2 = report_request (reportData_of CONFIG w) (localApiUrl CONFIG);
          x2 = http w (Suc (fetch_count w)) r2
      in (Inr (delivered x2),
          w\<lparr>trace := trace w @ [starting_line CONFIG,
                                   generated_line CONFIG (reportData_of CONFIG w),
                                   FetchCall r1, outcome_line CONFIG (apiUrl CONFIG) x1,
                                   fallback_line CONFIG,
                                   FetchCall r2, outcome_line CONFIG (localApiUrl CONFIG) x2],
            fetch_count := Suc (Suc (fetch_count w)),
            now := now w + int (elapsed x1) + int (elapsed x2)\<rparr>))"
  by (simp add: fallback_attempt_def at_fallback_def primary_attempt_run sendReport_run Let_def)

lemma cycle_events_run:
  "cycle_events CONFIG w =
     (let r1 = report_request (reportData_of CONFIG w) (apiUrl CONFIG);
          x1 = http w (fetch_count w) r1;
          r2 = report_request (reportData_of CONFIG w) (localApiUrl CONFIG);
          x2 = http w (Suc (fetch_count w)) r2
      in [starting_line CONFIG, generated_line CONFIG (reportData_of CONFIG w),
          FetchCall r1, outcome_line CONFIG (apiUrl CONFIG) x1]
         @ (if delivered x1 then []
            else [fallback_line CONFIG, FetchCall r2, outcome_line CONFIG (localApiUrl CONFIG) x2])
         @ [if delivered x1 \<or> delivered x2 then success_line CONFIG else failure_line CONFIG])"
  by (simp add: cycle_events_def new_events_def executeAgent_run primary_attempt_run
      fallback_attempt_run console_def success_line_def failure_line_def Let_def)

lemma fst_primary_attempt:
  "fst (primary_attempt CONFIG w) =
     Inr (delivered (http w (fetch_count w)
                       (report_request (reportData_of CONFIG w) (apiUrl CONFIG))))"
  by (simp add: primary_attempt_run Let_def)

lemma fst_fallback_attempt:
  "fst (fallback_attempt CONFIG w) =
     Inr (delivered (http w (Suc (fetch_count w))
                       (report_request (reportData_of CONFIG w) (localApiUrl CONFIG))))"
  by (simp add: fallback_attempt_run Let_def)

lemma primary_events:
  "new_events (at_primary CONFIG w) (snd (primary_attempt CONFIG w)) =
     (let r = report_request (reportData_of CONFIG w) (apiUrl CONFIG)
      in [FetchCall r, outcome_line CONFIG (apiUrl CONFIG) (http w (fetch_count w) r)])"
  by (simp add: new_events_def primary_attempt_run at_primary_def Let_def)

lemma fallback_events:
  "new_events (at_fallback CONFIG w) (snd (fallback_attempt CONFIG w)) =
     (let r = report_request (reportData_of CONFIG w) (localApiUrl CONFIG)
      in [FetchCall r, outcome_line CONFIG (localApiUrl CONFIG) (http w (Suc (fetch_count w)) r)])"
  by (simp add: new_events_def fallback_attempt_run at_fallback_def primary_attempt_run Let_def)

lemma executeAgent_fields:
  "timers (snd (executeAgent CONFIG w)) = timers w"
  "listeners (snd (executeAgent CONFIG w)) = listeners w"
  "readyState (snd (executeAgent CONFIG w)) = readyState w"
  "hostname (snd (executeAgent CONFIG w)) = hostname w"
  by (simp_all add: executeAgent_run primary_attempt_run fallback_attempt_run console_def Let_def)

lemma executeAgent_trace:
  "trace (snd (executeAgent CONFIG w)) = trace w @ cycle_events CONFIG w"
  by (simp add: cycle_events_run executeAgent_run primary_attempt_run fallback_attempt_run
      console_def success_line_def failure_line_def Let_def)

subsection \<open>Timestamps\<close>

lemma is_digit_digit [simp]: "is_digit (digit n)"
proof -
  have "nat (n mod 10) < length ''0123456789''"
    by simp
  then have "''0123456789'' ! nat (n mod 10) \<in> set ''0123456789''"
    by (rule nth_mem)
  then show ?thesis
    by (simp only: is_digit_def digit_def)
qed

lemma toISOString_shape: "iso_8601_shape (toISOString t)"
proof (cases "civil_from_days (t div 86400000)")
  case (fields y m d)
  then show ?thesis
    by (simp add: toISOString_def iso_year_def iso_8601_shape_def pad2_def pad3_def pad4_def
        pad6_def Let_def)
qed

lemma toISOString_example: "toISOString 1700000000000 = ''2023-11-14T22:13:20.000Z''"
  by code_simp

text \<open>The JSON text of a record.\<close>

lemma JSON_stringify_example:
  "JSON_stringify (reportData_of slot603_CONFIG (example_page h)) =
     ''{'' @ dq @ ''brand'' @ dq @ '':'' @ dq @ ''slot603'' @ dq
     @ '','' @ dq @ ''domain'' @ dq @ '':'' @ dq @ ''example.com'' @ dq
     @ '','' @ dq @ ''expired'' @ dq @ '':'' @ dq @ ''2025-08-01'' @ dq
     @ '','' @ dq @ ''status'' @ dq @ '':'' @ dq @ ''aktif'' @ dq
     @ '','' @ dq @ ''kategori'' @ dq @ '':'' @ dq @ ''normal'' @ dq
     @ '','' @ dq @ ''catatan'' @ dq @ '':'' @ dq
       @ ''Report from JS Agent - 2023-11-14T22:13:20.000Z'' @ dq
     @ '','' @ dq @ ''api_key'' @ dq @ '':'' @ dq @ ''SLOT603-KEY'' @ dq
     @ ''}''"
  by (simp add: JSON_stringify_def json_member_def QuoteJSONString_def QuoteJSONChar_def
      reportData_of_def slot603_CONFIG_def example_page_def toISOString_example dq_def)

lemma QuoteJSONString_example:
  "QuoteJSONString [CHR ''a'', CHR 0x22, CHR 0x5C, CHR 0x0A, CHR 0x1F, CHR ''z''] =
     dq @ [CHR ''a'', CHR 0x5C, CHR 0x22, CHR 0x5C, CHR 0x5C, CHR 0x5C, CHR ''n'',
           CHR 0x5C, CHR ''u'', CHR ''0'', CHR ''0'', CHR ''1'', CHR ''f'', CHR ''z''] @ dq"
  by (simp add: QuoteJSONString_def QuoteJSONChar_def hex_digit_def dq_def)

subsection \<open>The lines of the console and the requests in a trace\<close>

lemma fetch_calls_outcome_line [simp]:
  "fetch_calls (outcome_line CONFIG u x # es) = fetch_calls es"
  by (simp add: outcome_line_def split: fetch_outcome.splits)

lemma fetch_calls_lines [simp]:
  "fetch_calls (starting_line CONFIG # es) = fetch_calls es"
  "fetch_calls (generated_line CONFIG d # es) = fetch_calls es"
  "fetch_calls (fallback_line CONFIG # es) = fetch_calls es"
  "fetch_calls (success_line CONFIG # es) = fetch_calls es"
  "fetch_calls (failure_line CONFIG # es) = fetch_calls es"
  by (simp_all add: starting_line_def generated_line_def fallback_line_def success_line_def
      failure_line_def)

lemma url_report_request [simp]: "url (report_request d u) = u"
  by (simp add: report_request_def)

lemma fetch_calls_cycle:
  "fetch_calls (cycle_events CONFIG w) =
     report_request (reportData_of CONFIG w) (apiUrl CONFIG)
     # (if fst (primary_attempt CONFIG w) = Inr True then []
        else [report_request (reportData_of CONFIG w) (localApiUrl CONFIG)])"
  by (simp add: cycle_events_run fst_primary_attempt Let_def)

lemma line_distinct [simp]:
  "success_line CONFIG \<noteq> starting_line CONFIG"
  "success_line CONFIG \<noteq> generated_line CONFIG d"
  "success_line CONFIG \<noteq> fallback_line CONFIG"
  "success_line CONFIG \<noteq> failure_line CONFIG"
  "success_line CONFIG \<noteq> FetchCall r"
  "success_line CONFIG \<noteq> outcome_line CONFIG u x"
  "failure_line CONFIG \<noteq> starting_line CONFIG"
  "failure_line CONFIG \<noteq> generated_line CONFIG d"
  "failure_line CONFIG \<noteq> fallback_line CONFIG"
  "failure_line CONFIG \<noteq> success_line CONFIG"
  "failure_line CONFIG \<noteq> FetchCall r"
  "failure_line CONFIG \<noteq> outcome_line CONFIG u x"
  by (simp_all add: success_line_def failure_line_def starting_line_def generated_line_def
      fallback_line_def outcome_line_def split: fetch_outcome.splits)

lemma starting_line_distinct [simp]:
  "generated_line CONFIG d \<noteq> starting_line CONFIG"
  "fallback_line CONFIG \<noteq> starting_line CONFIG"
  "FetchCall r \<noteq> starting_line CONFIG"
  "outcome_line CONFIG u x \<noteq> starting_line CONFIG"
  "starting_line CONFIG \<noteq> success_line CONFIG"
  "starting_line CONFIG \<noteq> failure_line CONFIG"
  by (simp_all add: success_line_def failure_line_def starting_line_def generated_line_def
      fallback_line_def outcome_line_def split: fetch_outcome.splits)

lemma count_starting_line_cycle:
  "count_list (cycle_events CONFIG w) (starting_line CONFIG) = 1"
  by (simp add: cycle_events_run Let_def)

subsection \<open>Start-up and the event loop\<close>

lemma agent_script_run:
  "agent_script CONFIG w =
     (Inr (),
      (if readyState w = Loading
       then w\<lparr>listeners := listeners w @ [(''DOMContentLoaded'', ExecuteAgent CONFIG)]\<rparr>
       else snd (executeAgent CONFIG w))
      \<lparr>timers := timers w @ [(ExecuteAgent CONFIG, 1800000)]\<rparr>)"
  by (simp add: agent_script_def bind_js_def document_readyState_def addEventListener_def
      call_async_def setInterval_def return_js_def executeAgent_fields)

lemma run_callback_timers: "timers (snd (run_callback cb w)) = timers w"
  by (cases cb) (simp add: call_async_def executeAgent_fields)

lemma run_listeners_timers: "timers (run_listeners ty ls w) = timers w"
  by (induction ty ls w rule: run_listeners.induct) (simp_all add: run_callback_timers)

lemma page_step_timers: "timers (page_step e w) = timers w"
  by (cases e) (simp_all add: run_listeners_timers run_callback_timers)

lemma run_page_timers: "timers (run_page es w) = timers w"
  by (induction es arbitrary: w) (simp_all add: page_step_timers)

lemma run_listeners_append:
  "run_listeners ty (xs @ ys) w = run_listeners ty ys (run_listeners ty xs w)"
  by (induction ty xs w rule: run_listeners.induct) simp_all

lemma interval_fires_cycles:
  assumes "k < length (timers v)" and "fst (timers v ! k) = ExecuteAgent CONFIG"
  shows "\<exists>es. trace (run_page (replicate n (IntervalFires k)) v) = trace v @ es
              \<and> count_list es (starting_line CONFIG) = n"
  using assms
proof (induction n arbitrary: v)
  case 0
  then show ?case by simp
next
  case (Suc n)
  let ?v' = "page_step (IntervalFires k) v"
  have step: "?v' = snd (executeAgent CONFIG v)"
    using Suc.prems by (simp add: call_async_def)
  have "timers ?v' = timers v"
    by (rule page_step_timers)
  with Suc.prems have "k < length (timers ?v')" "fst (timers ?v' ! k) = ExecuteAgent CONFIG"
    by simp_all
  from Suc.IH [OF this] obtain es where
    es: "trace (run_page (replicate n (IntervalFires k)) ?v') = trace ?v' @ es"
      "count_list es (starting_line CONFIG) = n"
    by blast
  have "trace ?v' = trace v @ cycle_events CONFIG v"
    by (simp only: step executeAgent_trace)
  with es have "trace (run_page (replicate (Suc n) (IntervalFires k)) v)
      = trace v @ (cycle_events CONFIG v @ es)"
    by simp
  moreover have "count_list (cycle_events CONFIG v @ es) (starting_line CONFIG) = Suc n"
    by (simp add: count_starting_line_cycle es(2))
  ultimately show ?case by blast
qed

section \<open>The claims\<close>

subsection \<open>C1: the order of the two deliveries\<close>

text \<open>
  C1. In every cycle \<open>executeAgent\<close> calls \<open>sendReport\<close> with the primary URL
  exactly once; a call with the fallback URL happens only after the primary
  call has completed; if the primary call returns \<open>true\<close> the fallback is
  never called. The requests of a cycle go to the primary URL first and then,
  only if the primary call did not return \<open>true\<close>, to the fallback URL. The
  events of the whole primary call (its request and the line it logs once the
  answer is there) come before everything else that follows them, and the
  fallback request, if any, is in the rest. When the two URLs are different
  strings, as in both scripts, exactly one request of the cycle carries the
  primary URL.
\<close>

theorem executeAgent_primary_once_then_fallback:
  "map url (fetch_calls (cycle_events CONFIG w)) =
     apiUrl CONFIG
     # (if fst (primary_attempt CONFIG w) = Inr True then [] else [localApiUrl CONFIG])
   \<and> (\<exists>rest.
        cycle_events CONFIG w =
          [starting_line CONFIG, generated_line CONFIG (reportData_of CONFIG w)]
          @ new_events (at_primary CONFIG w) (snd (primary_attempt CONFIG w)) @ rest
        \<and> map url (fetch_calls (new_events (at_primary CONFIG w) (snd (primary_attempt CONFIG w))))
            = [apiUrl CONFIG]
        \<and> map url (fetch_calls rest) =
            (if fst (primary_attempt CONFIG w) = Inr True then [] else [localApiUrl CONFIG]))
   \<and> (apiUrl CONFIG \<noteq> localApiUrl CONFIG \<longrightarrow>
        count_list (map url (fetch_calls (cycle_events CONFIG w))) (apiUrl CONFIG) = 1)"
proof (intro conjI)
  show "map url (fetch_calls (cycle_events CONFIG w)) =
     apiUrl CONFIG
     # (if fst (primary_attempt CONFIG w) = Inr True then [] else [localApiUrl CONFIG])"
    by (simp add: fetch_calls_cycle)
  then show "apiUrl CONFIG \<noteq> localApiUrl CONFIG \<longrightarrow>
        count_list (map url (fetch_calls (cycle_events CONFIG w))) (apiUrl CONFIG) = 1"
    by simp
  show "\<exists>rest.
        cycle_events CONFIG w =
          [starting_line CONFIG, generated_line CONFIG (reportData_of CONFIG w)]
          @ new_events (at_primary CONFIG w) (snd (primary_attempt CONFIG w)) @ rest
        \<and> map url (fetch_calls (new_events (at_primary CONFIG w) (snd (primary_attempt CONFIG w))))
            = [apiUrl CONFIG]
        \<and> map url (fetch_calls rest) =
            (if fst (primary_attempt CONFIG w) = Inr True then [] else [localApiUrl CONFIG])"
    by (simp add: cycle_events_run primary_events fst_primary_attempt Let_def)
qed

theorem executeAgent_primary_once_then_fallback_witness:
  "apiUrl slot603_CONFIG \<noteq> localApiUrl slot603_CONFIG
   \<and> fst (primary_attempt slot603_CONFIG (example_page http_500_then_200)) = Inr False
   \<and> map url (fetch_calls (cycle_events slot603_CONFIG (example_page http_500_then_200))) =
       [''https://www.dewipemikat.com/api/report'', ''http://localhost:8000/api/report'']
   \<and> count_list (map url (fetch_calls (cycle_events slot603_CONFIG (example_page http_500_then_200))))
        (apiUrl slot603_CONFIG) = 1
   \<and> fst (primary_attempt slot603_CONFIG (example_page http_200)) = Inr True
   \<and> map url (fetch_calls (cycle_events slot603_CONFIG (example_page http_200))) =
       [''https://www.dewipemikat.com/api/report'']"
  using executeAgent_primary_once_then_fallback
    [of slot603_CONFIG "example_page http_500_then_200"]
    executeAgent_primary_once_then_fallback [of slot603_CONFIG "example_page http_200"]
  by (simp add: fst_primary_attempt slot603_CONFIG_def example_page_def http_500_then_200_def
      http_200_def delivered_def)

subsection \<open>C2: the fallback gets the record of the primary attempt\<close>

text \<open>
  C2. When the primary call of \<open>sendReport\<close> does not return \<open>true\<close>, the
  fallback URL is requested exactly once, and with the very record that went
  to the primary URL: the one record \<open>generateReportData\<close> built at the start
  of the cycle, whose \<open>catatan\<close> carries the time of that moment. The record
  is not built again, although the clock has moved on while the primary
  request was under way.
\<close>

theorem executeAgent_fallback_same_record:
  assumes "fst (primary_attempt CONFIG w) \<noteq> Inr True"
  shows "\<exists>data.
           generateReportData CONFIG w = (Inr data, w)
         \<and> catatan data = ''Report from JS Agent - '' @ toISOString (now w)
         \<and> fetch_calls (cycle_events CONFIG w) =
             [report_request data (apiUrl CONFIG), report_request data (localApiUrl CONFIG)]
         \<and> fetch_calls (new_events (at_primary CONFIG w) (snd (primary_attempt CONFIG w))) =
             [report_request data (apiUrl CONFIG)]
         \<and> fetch_calls (new_events (at_fallback CONFIG w) (snd (fallback_attempt CONFIG w))) =
             [report_request data (localApiUrl CONFIG)]"
proof -
  let ?data = "reportData_of CONFIG w"
  have "generateReportData CONFIG w = (Inr ?data, w)"
    by (rule generateReportData_run)
  moreover have "catatan ?data = ''Report from JS Agent - '' @ toISOString (now w)"
    by (simp add: reportData_of_def)
  moreover have "fetch_calls (cycle_events CONFIG w) =
      [report_request ?data (apiUrl CONFIG), report_request ?data (localApiUrl CONFIG)]"
    using assms by (simp add: fetch_calls_cycle)
  moreover have "fetch_calls (new_events (at_primary CONFIG w) (snd (primary_attempt CONFIG w))) =
      [report_request ?data (apiUrl CONFIG)]"
    by (simp add: primary_events Let_def)
  moreover have "fetch_calls (new_events (at_fallback CONFIG w) (snd (fallback_attempt CONFIG w))) =
      [report_request ?data (localApiUrl CONFIG)]"
    by (simp add: fallback_events Let_def)
  ultimately show ?thesis by blast
qed

theorem executeAgent_fallback_same_record_witness:
  "fst (primary_attempt slot603_CONFIG (example_page http_500_then_200)) \<noteq> Inr True
   \<and> now (at_fallback slot603_CONFIG (example_page http_500_then_200)) = 1700000000120
   \<and> map body (fetch_calls (cycle_events slot603_CONFIG (example_page http_500_then_200))) =
       [JSON_stringify (reportData_of slot603_CONFIG (example_page http_500_then_200)),
        JSON_stringify (reportData_of slot603_CONFIG (example_page http_500_then_200))]
   \<and> catatan (reportData_of slot603_CONFIG (example_page http_500_then_200)) =
       ''Report from JS Agent - 2023-11-14T22:13:20.000Z''"
proof -
  let ?w = "example_page http_500_then_200"
  have failed: "fst (primary_attempt slot603_CONFIG ?w) \<noteq> Inr True"
    by (simp add: fst_primary_attempt slot603_CONFIG_def example_page_def
        http_500_then_200_def delivered_def)
  have clock: "now (at_fallback slot603_CONFIG ?w) = 1700000000120"
    by (simp add: at_fallback_def primary_attempt_run Let_def slot603_CONFIG_def
        example_page_def http_500_then_200_def)
  note stamp = toISOString_example
  have now0: "now ?w = 1700000000000"
    by (simp add: example_page_def)
  from executeAgent_fallback_same_record [OF failed]
  obtain data where built: "generateReportData slot603_CONFIG ?w = (Inr data, ?w)"
    and cat: "catatan data = ''Report from JS Agent - '' @ toISOString (now ?w)"
    and calls: "fetch_calls (cycle_events slot603_CONFIG ?w) =
      [report_request data (apiUrl slot603_CONFIG), report_request data (localApiUrl slot603_CONFIG)]"
    by blast
  from built have data: "data = reportData_of slot603_CONFIG ?w"
    by (simp add: generateReportData_run)
  have bodies: "map body (fetch_calls (cycle_events slot603_CONFIG ?w)) =
      [JSON_stringify (reportData_of slot603_CONFIG ?w),
       JSON_stringify (reportData_of slot603_CONFIG ?w)]"
    by (simp add: calls data report_request_def)
  have "catatan (reportData_of slot603_CONFIG ?w) =
      ''Report from JS Agent - 2023-11-14T22:13:20.000Z''"
    using cat by (simp add: data now0 stamp)
  with failed clock bodies show ?thesis by blast
qed

subsection \<open>C3: the last line of a cycle\<close>

text \<open>
  C3. \<open>executeAgent\<close> logs the line of success exactly when one of the calls
  of \<open>sendReport\<close> it made returned \<open>true\<close> (the primary one, or the fallback
  one made after the primary failed), and the line of failure exactly when
  every call it made failed; the line is the last event of the cycle.
\<close>

theorem executeAgent_final_line:
  "(success_line CONFIG \<in> set (cycle_events CONFIG w) \<longleftrightarrow>
      fst (primary_attempt CONFIG w) = Inr True
      \<or> fst (primary_attempt CONFIG w) \<noteq> Inr True \<and> fst (fallback_attempt CONFIG w) = Inr True)
   \<and> (failure_line CONFIG \<in> set (cycle_events CONFIG w) \<longleftrightarrow>
      fst (primary_attempt CONFIG w) \<noteq> Inr True \<and> fst (fallback_attempt CONFIG w) \<noteq> Inr True)
   \<and> last (cycle_events CONFIG w) =
       (if fst (primary_attempt CONFIG w) = Inr True
           \<or> fst (primary_attempt CONFIG w) \<noteq> Inr True \<and> fst (fallback_attempt CONFIG w) = Inr True
        then success_line CONFIG else failure_line CONFIG)"
  by (auto simp add: cycle_events_run fst_primary_attempt fst_fallback_attempt Let_def)

theorem executeAgent_final_line_witness:
  "fst (primary_attempt slot603_CONFIG (example_page http_500_then_200)) \<noteq> Inr True
   \<and> fst (fallback_attempt slot603_CONFIG (example_page http_500_then_200)) = Inr True
   \<and> success_line slot603_CONFIG \<in> set (cycle_events slot603_CONFIG (example_page http_500_then_200))
   \<and> failure_line slot603_CONFIG \<notin> set (cycle_events slot603_CONFIG (example_page http_500_then_200))
   \<and> fst (primary_attempt slot603_CONFIG (example_page http_refused)) \<noteq> Inr True
   \<and> fst (fallback_attempt slot603_CONFIG (example_page http_refused)) \<noteq> Inr True
   \<and> failure_line slot603_CONFIG \<in> set (cycle_events slot603_CONFIG (example_page http_refused))
   \<and> last (cycle_events slot603_CONFIG (example_page http_refused)) =
       Console Error [Str ''[slot603] Failed to send report to any API endpoint'']"
proof -
  have a: "fst (primary_attempt slot603_CONFIG (example_page http_500_then_200)) \<noteq> Inr True"
    by (simp add: fst_primary_attempt slot603_CONFIG_def example_page_def
        http_500_then_200_def delivered_def)
  have b: "fst (fallback_attempt slot603_CONFIG (example_page http_500_then_200)) = Inr True"
    by (simp add: fst_fallback_attempt slot603_CONFIG_def example_page_def
        http_500_then_200_def delivered_def)
  have c: "fst (primary_attempt slot603_CONFIG (example_page http_refused)) \<noteq> Inr True"
    by (simp add: fst_primary_attempt example_page_def http_refused_def delivered_def)
  have d: "fst (fallback_attempt slot603_CONFIG (example_page http_refused)) \<noteq> Inr True"
    by (simp add: fst_fallback_attempt example_page_def http_refused_def delivered_def)
  have e: "failure_line slot603_CONFIG =
      Console Error [Str ''[slot603] Failed to send report to any API endpoint'']"
    by (simp add: failure_line_def slot603_CONFIG_def)
  show ?thesis
    using executeAgent_final_line [of slot603_CONFIG "example_page http_500_then_200"]
      executeAgent_final_line [of slot603_CONFIG "example_page http_refused"] a b c d e
    by simp
qed

subsection \<open>C4: nothing is thrown\<close>

text \<open>
  C4. No exception leaves \<open>executeAgent\<close>: whatever the HTTP client does (a
  response that is not ok, or a rejected or throwing \<open>fetch\<close>), \<open>sendReport\<close>
  catches it and completes with a boolean, \<open>false\<close> for every failure, and
  \<open>executeAgent\<close> completes normally.
\<close>

theorem sendReport_never_throws:
  "fst (sendReport CONFIG data u w) =
     Inr (case outcome (http w (fetch_count w) (report_request data u)) of
            Resolved r \<Rightarrow> ok r
          | Rejected e \<Rightarrow> False)
   \<and> fst (executeAgent CONFIG w) = Inr ()"
  by (simp add: sendReport_run executeAgent_run console_def delivered_def Let_def)

theorem sendReport_never_throws_witness:
  "outcome (http (example_page http_refused) 0
              (report_request (reportData_of slot603_CONFIG (example_page http_refused))
                 ''http://localhost:8000/api/report''))
     = Rejected (JsError ''TypeError'' ''Failed to fetch'')
   \<and> fst (sendReport slot603_CONFIG (reportData_of slot603_CONFIG (example_page http_refused))
            ''http://localhost:8000/api/report'' (example_page http_refused)) = Inr False
   \<and> fst (executeAgent slot603_CONFIG (example_page http_refused)) = Inr ()"
  using sendReport_never_throws
    [of slot603_CONFIG "reportData_of slot603_CONFIG (example_page http_refused)"
        "''http://localhost:8000/api/report''" "example_page http_refused"]
  by (simp add: example_page_def http_refused_def)

subsection \<open>C5: the fields copied from the configuration\<close>

text \<open>
  C5. The record \<open>generateReportData\<close> returns has its \<open>brand\<close>, \<open>expired\<close>,
  \<open>status\<close>, \<open>kategori\<close> and \<open>api_key\<close> equal to the \<open>brand\<close>, \<open>expired\<close>,
  \<open>status\<close>, \<open>kategori\<close> and \<open>apiKey\<close> of the configuration, unchanged.
\<close>

theorem generateReportData_copies_config:
  "\<exists>r. generateReportData CONFIG w = (Inr r, w)
       \<and> report_brand r = brand CONFIG
       \<and> report_expired r = expired CONFIG
       \<and> report_status r = status CONFIG
       \<and> report_kategori r = kategori CONFIG
       \<and> api_key r = apiKey CONFIG"
  by (simp add: generateReportData_run reportData_of_def)

theorem generateReportData_copies_config_witness:
  "\<exists>r. generateReportData slot603_CONFIG (example_page http_200) = (Inr r, example_page http_200)
       \<and> report_brand r = ''slot603''
       \<and> report_expired r = ''2025-08-01''
       \<and> report_status r = ''aktif''
       \<and> report_kategori r = ''normal''
       \<and> api_key r = ''SLOT603-KEY''"
  using generateReportData_copies_config [of slot603_CONFIG "example_page http_200"]
  by (simp add: slot603_CONFIG_def)

subsection \<open>C6: the fields read from the page\<close>

text \<open>
  C6. \<open>generateReportData\<close> sets \<open>domain\<close> to the host name the page reports at
  the call and \<open>catatan\<close> to the marker \<open>Report from JS Agent - \<close> followed
  by the ISO 8601 timestamp of the time of the call; it changes nothing on the
  page and does not throw.
\<close>

theorem generateReportData_domain_and_note:
  "\<exists>r. generateReportData CONFIG w = (Inr r, w)
       \<and> domain r = hostname w
       \<and> catatan r = ''Report from JS Agent - '' @ toISOString (now w)
       \<and> iso_8601_shape (toISOString (now w))"
  by (simp add: generateReportData_run reportData_of_def toISOString_shape)

theorem generateReportData_domain_and_note_witness:
  "\<exists>r. generateReportData slot603_CONFIG (example_page http_200) = (Inr r, example_page http_200)
       \<and> domain r = ''example.com''
       \<and> catatan r = ''Report from JS Agent - 2023-11-14T22:13:20.000Z''"
proof -
  note stamp = toISOString_example
  have page: "hostname (example_page http_200) = ''example.com''"
    "now (example_page http_200) = 1700000000000"
    by (simp_all add: example_page_def)
  from generateReportData_domain_and_note [of slot603_CONFIG "example_page http_200"]
  obtain r where "generateReportData slot603_CONFIG (example_page http_200) =
      (Inr r, example_page http_200)"
    and "domain r = hostname (example_page http_200)"
    and "catatan r = ''Report from JS Agent - '' @ toISOString (now (example_page http_200))"
    by blast
  then show ?thesis
    by (simp add: page stamp)
qed

subsection \<open>C7: one POST per delivery\<close>

text \<open>
  C7. Each call of \<open>sendReport\<close> makes exactly one call of \<open>fetch\<close>: a POST
  to the given URL with the headers \<open>Content-Type: application/json\<close> and
  \<open>User-Agent: DomainMonitor-Agent/1.0\<close> and the JSON text of the record as
  body. It returns \<open>true\<close> exactly when the response has \<open>ok\<close> set, whatever
  the status and the body of the response are, and \<open>false\<close> when \<open>fetch\<close> is
  rejected; there is no second request.
\<close>

theorem sendReport_one_post:
  "fetch_calls (new_events w (snd (sendReport CONFIG data u w))) =
     [\<lparr>url = u,
       http_method = ''POST'',
       headers = [(''Content-Type'', ''application/json''),
                  (''User-Agent'', ''DomainMonitor-Agent/1.0'')],
       body = JSON_stringify data\<rparr>]
   \<and> fetch_count (snd (sendReport CONFIG data u w)) = Suc (fetch_count w)
   \<and> (\<forall>r. outcome (http w (fetch_count w) (report_request data u)) = Resolved r \<longrightarrow>
          fst (sendReport CONFIG data u w) = Inr (ok r))
   \<and> (\<forall>e. outcome (http w (fetch_count w) (report_request data u)) = Rejected e \<longrightarrow>
          fst (sendReport CONFIG data u w) = Inr False)"
  by (simp add: sendReport_run new_events_def delivered_def Let_def report_request_def)

theorem sendReport_one_post_witness:
  "outcome (http (example_page http_500_then_200) 0
              (report_request (reportData_of slot603_CONFIG (example_page http_500_then_200))
                 ''https://www.dewipemikat.com/api/report''))
     = Resolved \<lparr>ok = False, http_status = 500, response_body = ''Internal Server Error''\<rparr>
   \<and> fst (sendReport slot603_CONFIG
            (reportData_of slot603_CONFIG (example_page http_500_then_200))
            ''https://www.dewipemikat.com/api/report'' (example_page http_500_then_200))
       = Inr False
   \<and> outcome (http (example_page http_refused) 0
              (report_request (reportData_of slot603_CONFIG (example_page http_refused))
                 ''https://www.dewipemikat.com/api/report''))
     = Rejected (JsError ''TypeError'' ''Failed to fetch'')
   \<and> fst (sendReport slot603_CONFIG
            (reportData_of slot603_CONFIG (example_page http_refused))
            ''https://www.dewipemikat.com/api/report'' (example_page http_refused))
       = Inr False
   \<and> fst (sendReport slot603_CONFIG
            (reportData_of slot603_CONFIG (example_page http_200))
            ''https://www.dewipemikat.com/api/report'' (example_page http_200))
       = Inr True
   \<and> map http_method
        (fetch_calls (new_events (example_page http_refused)
           (snd (sendReport slot603_CONFIG
                   (reportData_of slot603_CONFIG (example_page http_refused))
                   ''https://www.dewipemikat.com/api/report'' (example_page http_refused)))))
       = [''POST'']
   \<and> map body
        (fetch_calls (new_events (example_page http_refused)
           (snd (sendReport slot603_CONFIG
                   (reportData_of slot603_CONFIG (example_page http_refused))
                   ''https://www.dewipemikat.com/api/report'' (example_page http_refused)))))
       = [''{'' @ dq @ ''brand'' @ dq @ '':'' @ dq @ ''slot603'' @ dq
          @ '','' @ dq @ ''domain'' @ dq @ '':'' @ dq @ ''example.com'' @ dq
          @ '','' @ dq @ ''expired'' @ dq @ '':'' @ dq @ ''2025-08-01'' @ dq
          @ '','' @ dq @ ''status'' @ dq @ '':'' @ dq @ ''aktif'' @ dq
          @ '','' @ dq @ ''kategori'' @ dq @ '':'' @ dq @ ''normal'' @ dq
          @ '','' @ dq @ ''catatan'' @ dq @ '':'' @ dq
            @ ''Report from JS Agent - 2023-11-14T22:13:20.000Z'' @ dq
          @ '','' @ dq @ ''api_key'' @ dq @ '':'' @ dq @ ''SLOT603-KEY'' @ dq
          @ ''}'']"
  using sendReport_one_post
    [of "example_page http_500_then_200" slot603_CONFIG
        "reportData_of slot603_CONFIG (example_page http_500_then_200)"
        "''https://www.dewipemikat.com/api/report''"]
    sendReport_one_post
    [of "example_page http_refused" slot603_CONFIG
        "reportData_of slot603_CONFIG (example_page http_refused)"
        "''https://www.dewipemikat.com/api/report''"]
    sendReport_one_post
    [of "example_page http_200" slot603_CONFIG
        "reportData_of slot603_CONFIG (example_page http_200)"
        "''https://www.dewipemikat.com/api/report''"]
  by (simp add: JSON_stringify_example)
     (simp add: example_page_def http_500_then_200_def http_refused_def http_200_def
      report_request_def)

subsection \<open>C8: when the agent runs\<close>

text \<open>
  C8. The script runs \<open>executeAgent\<close> once at page load: at once when the
  document is no longer loading, otherwise as a listener of
  \<open>DOMContentLoaded\<close>, which runs one cycle when the event is dispatched. It
  registers one interval timer for \<open>executeAgent\<close> with the constant delay
  30 * 60 * 1000 milliseconds. Whatever happens on the page afterwards and
  however the deliveries end, the timer stays registered with that delay, and
  each time it fires exactly one more cycle starts, with no bound on their
  number.
\<close>

theorem agent_script_schedule:
  "fst (agent_script CONFIG w) = Inr ()
   \<and> timers (snd (agent_script CONFIG w)) = timers w @ [(ExecuteAgent CONFIG, 30 * 60 * 1000)]
   \<and> (readyState w = Loading \<longrightarrow>
        listeners (snd (agent_script CONFIG w)) =
          listeners w @ [(''DOMContentLoaded'', ExecuteAgent CONFIG)]
        \<and> trace (snd (agent_script CONFIG w)) = trace w
        \<and> page_step DOMContentLoaded (snd (agent_script CONFIG w)) =
            snd (executeAgent CONFIG
                  (run_listeners ''DOMContentLoaded'' (listeners w)
                     ((snd (agent_script CONFIG w))\<lparr>readyState := Interactive\<rparr>))))
   \<and> (readyState w \<noteq> Loading \<longrightarrow>
        listeners (snd (agent_script CONFIG w)) = listeners w
        \<and> new_events w (snd (agent_script CONFIG w)) = cycle_events CONFIG w)
   \<and> (\<forall>es. timers (run_page es (snd (agent_script CONFIG w))) =
             timers w @ [(ExecuteAgent CONFIG, 1800000)])
   \<and> (\<forall>n. count_list
             (new_events (snd (agent_script CONFIG w))
                (run_page (replicate n (IntervalFires (length (timers w))))
                   (snd (agent_script CONFIG w))))
             (starting_line CONFIG) = n)"
proof (intro conjI allI impI)
  let ?w0 = "snd (agent_script CONFIG w)"
  show "fst (agent_script CONFIG w) = Inr ()"
    by (simp add: agent_script_run)
  show t: "timers ?w0 = timers w @ [(ExecuteAgent CONFIG, 30 * 60 * 1000)]"
    by (simp add: agent_script_run)
  show "timers (run_page es ?w0) = timers w @ [(ExecuteAgent CONFIG, 1800000)]" for es
    using t by (simp add: run_page_timers)
  show "listeners ?w0 = listeners w @ [(''DOMContentLoaded'', ExecuteAgent CONFIG)]"
    if "readyState w = Loading"
    using that by (simp add: agent_script_run)
  show "trace ?w0 = trace w" if "readyState w = Loading"
    using that by (simp add: agent_script_run)
  show "page_step DOMContentLoaded ?w0 =
      snd (executeAgent CONFIG
            (run_listeners ''DOMContentLoaded'' (listeners w) (?w0\<lparr>readyState := Interactive\<rparr>)))"
    if "readyState w = Loading"
    using that by (simp add: agent_script_run run_listeners_append call_async_def)
  show "listeners ?w0 = listeners w" if "readyState w \<noteq> Loading"
    using that by (simp add: agent_script_run executeAgent_fields)
  show "new_events w ?w0 = cycle_events CONFIG w" if "readyState w \<noteq> Loading"
    using that by (simp add: agent_script_run new_events_def executeAgent_trace)
  show "count_list
         (new_events ?w0 (run_page (replicate n (IntervalFires (length (timers w)))) ?w0))
         (starting_line CONFIG) = n" for n
  proof -
    have "length (timers w) < length (timers ?w0)"
      "fst (timers ?w0 ! length (timers w)) = ExecuteAgent CONFIG"
      using t by simp_all
    from interval_fires_cycles [OF this, of n] show ?thesis
      by (auto simp add: new_events_def)
  qed
qed

theorem agent_script_schedule_witness:
  "readyState loading_page = Loading
   \<and> listeners (snd (agent_script slot603_CONFIG loading_page)) =
       [(''DOMContentLoaded'', ExecuteAgent slot603_CONFIG)]
   \<and> trace (snd (agent_script slot603_CONFIG loading_page)) = []
   \<and> timers (snd (agent_script slot603_CONFIG loading_page)) =
       [(ExecuteAgent slot603_CONFIG, 1800000)]
   \<and> readyState (example_page http_refused) \<noteq> Loading
   \<and> listeners (snd (agent_script slot603_CONFIG (example_page http_refused))) = []
   \<and> new_events (example_page http_refused)
        (snd (agent_script slot603_CONFIG (example_page http_refused))) =
       cycle_events slot603_CONFIG (example_page http_refused)
   \<and> timers (run_page [IntervalFires 0, DOMContentLoaded, IntervalFires 0]
               (snd (agent_script slot603_CONFIG (example_page http_refused)))) =
       [(ExecuteAgent slot603_CONFIG, 1800000)]
   \<and> count_list
        (new_events (snd (agent_script slot603_CONFIG (example_page http_refused)))
           (run_page (replicate 3 (IntervalFires 0))
              (snd (agent_script slot603_CONFIG (example_page http_refused)))))
        (starting_line slot603_CONFIG) = 3"
proof -
  have l: "readyState loading_page = Loading" "listeners loading_page = []"
    "trace loading_page = []" "timers loading_page = []"
    by (simp_all add: loading_page_def)
  have p: "readyState (example_page http_refused) \<noteq> Loading"
    "listeners (example_page http_refused) = []" "timers (example_page http_refused) = []"
    by (simp_all add: example_page_def)
  note a = agent_script_schedule [of slot603_CONFIG loading_page]
  note b = agent_script_schedule [of slot603_CONFIG "example_page http_refused"]
  from a l have
    "listeners (snd (agent_script slot603_CONFIG loading_page)) =
       [(''DOMContentLoaded'', ExecuteAgent slot603_CONFIG)]"
    "trace (snd (agent_script slot603_CONFIG loading_page)) = []"
    "timers (snd (agent_script slot603_CONFIG loading_page)) =
       [(ExecuteAgent slot603_CONFIG, 1800000)]"
    by simp_all
  moreover from b p have
    "listeners (snd (agent_script slot603_CONFIG (example_page http_refused))) = []"
    "new_events (example_page http_refused)
        (snd (agent_script slot603_CONFIG (example_page http_refused))) =
       cycle_events slot603_CONFIG (example_page http_refused)"
    by simp_all
  moreover from b have
    "\<forall>es. timers (run_page es (snd (agent_script slot603_CONFIG (example_page http_refused)))) =
       timers (example_page http_refused) @ [(ExecuteAgent slot603_CONFIG, 1800000)]"
    by blast
  then have
    "timers (run_page [IntervalFires 0, DOMContentLoaded, IntervalFires 0]
               (snd (agent_script slot603_CONFIG (example_page http_refused)))) =
       [(ExecuteAgent slot603_CONFIG, 1800000)]"
    by (simp only: p append_Nil)
  moreover from b have
    "\<forall>n. count_list
        (new_events (snd (agent_script slot603_CONFIG (example_page http_refused)))
           (run_page (replicate n (IntervalFires (length (timers (example_page http_refused)))))
              (snd (agent_script slot603_CONFIG (example_page http_refused)))))
        (starting_line slot603_CONFIG) = n"
    by blast
  then have
    "count_list
        (new_events (snd (agent_script slot603_CONFIG (example_page http_refused)))
           (run_page (replicate 3 (IntervalFires 0))
              (snd (agent_script slot603_CONFIG (example_page http_refused)))))
        (starting_line slot603_CONFIG) = 3"
    by (simp only: p list.size)
  ultimately show ?thesis
    using l(1) p(1) by blast
qed

subsection \<open>C9: the two scripts\<close>

text \<open>
  C9. The two scripts are the same program up to the configuration: with
  \<open>CONFIG\<close> as a parameter, \<open>generateReportData\<close>, \<open>sendReport\<close> and
  \<open>executeAgent\<close> of the second script are the functions of the first, and the
  two configurations differ in \<open>brand\<close> and \<open>apiKey\<close> only.
\<close>

theorem netpro_same_functions:
  "netpro_generateReportData = generateReportData
   \<and> netpro_sendReport = sendReport
   \<and> netpro_executeAgent = executeAgent
   \<and> netpro_CONFIG = slot603_CONFIG\<lparr>brand := ''netpro'', apiKey := ''NETPRO-KEY''\<rparr>"
proof -
  have d: "netpro_getCurrentDomain = getCurrentDomain"
    by (simp add: netpro_getCurrentDomain_def getCurrentDomain_def)
  have g: "netpro_generateReportData = generateReportData"
    by (rule ext) (simp add: netpro_generateReportData_def generateReportData_def d)
  have s: "netpro_sendReport = sendReport"
    by (intro ext) (simp add: netpro_sendReport_def sendReport_def)
  have e: "netpro_executeAgent = executeAgent"
    unfolding netpro_executeAgent_def executeAgent_def g s by (rule refl)
  have c: "netpro_CONFIG = slot603_CONFIG\<lparr>brand := ''netpro'', apiKey := ''NETPRO-KEY''\<rparr>"
    by (simp add: netpro_CONFIG_def slot603_CONFIG_def)
  from g s e c show ?thesis by simp
qed

theorem netpro_same_functions_witness:
  "netpro_executeAgent netpro_CONFIG (example_page http_500_then_200) =
     executeAgent netpro_CONFIG (example_page http_500_then_200)
   \<and> brand netpro_CONFIG = ''netpro''
   \<and> apiKey netpro_CONFIG = ''NETPRO-KEY''
   \<and> apiUrl netpro_CONFIG = apiUrl slot603_CONFIG"
proof -
  from netpro_same_functions
  have e: "netpro_executeAgent = executeAgent"
    and c: "netpro_CONFIG = slot603_CONFIG\<lparr>brand := ''netpro'', apiKey := ''NETPRO-KEY''\<rparr>"
    by blast+
  show ?thesis
    by (simp add: e c)
qed

subsection \<open>C10: what a cycle depends on\<close>

text \<open>
  C10. A cycle depends on the configuration, the host name, the clock and the
  answers of the HTTP client to its requests, and on nothing else: on two
  pages that agree on these, \<open>executeAgent\<close> builds the same record, makes the
  same requests in the same order, logs the same lines and ends the same way,
  whatever else differs between the pages.
\<close>

theorem executeAgent_deterministic:
  assumes "hostname w1 = hostname w2"
    and "now w1 = now w2"
    and "outcome (http w1 (fetch_count w1)
                    (report_request (reportData_of CONFIG w1) (apiUrl CONFIG)))
         = outcome (http w2 (fetch_count w2)
                      (report_request (reportData_of CONFIG w2) (apiUrl CONFIG)))"
    and "outcome (http w1 (Suc (fetch_count w1))
                    (report_request (reportData_of CONFIG w1) (localApiUrl CONFIG)))
         = outcome (http w2 (Suc (fetch_count w2))
                      (report_request (reportData_of CONFIG w2) (localApiUrl CONFIG)))"
  shows "fst (generateReportData CONFIG w1) = fst (generateReportData CONFIG w2)
       \<and> cycle_events CONFIG w1 = cycle_events CONFIG w2
       \<and> fst (primary_attempt CONFIG w1) = fst (primary_attempt CONFIG w2)
       \<and> fst (fallback_attempt CONFIG w1) = fst (fallback_attempt CONFIG w2)
       \<and> fst (executeAgent CONFIG w1) = fst (executeAgent CONFIG w2)"
proof -
  have r: "reportData_of CONFIG w1 = reportData_of CONFIG w2"
    using assms(1,2) by (simp add: reportData_of_def)
  have o1: "outcome_line CONFIG u (http w1 (fetch_count w1)
                    (report_request (reportData_of CONFIG w1) (apiUrl CONFIG)))
      = outcome_line CONFIG u (http w2 (fetch_count w2)
                    (report_request (reportData_of CONFIG w2) (apiUrl CONFIG)))" for u
    using assms(3) by (simp add: outcome_line_def)
  have o2: "outcome_line CONFIG u (http w1 (Suc (fetch_count w1))
                    (report_request (reportData_of CONFIG w1) (localApiUrl CONFIG)))
      = outcome_line CONFIG u (http w2 (Suc (fetch_count w2))
                    (report_request (reportData_of CONFIG w2) (localApiUrl CONFIG)))" for u
    using assms(4) by (simp add: outcome_line_def)
  have d1: "delivered (http w1 (fetch_count w1)
                    (report_request (reportData_of CONFIG w1) (apiUrl CONFIG)))
      = delivered (http w2 (fetch_count w2)
                    (report_request (reportData_of CONFIG w2) (apiUrl CONFIG)))"
    using assms(3) by (simp add: delivered_def)
  have d2: "delivered (http w1 (Suc (fetch_count w1))
                    (report_request (reportData_of CONFIG w1) (localApiUrl CONFIG)))
      = delivered (http w2 (Suc (fetch_count w2))
                    (report_request (reportData_of CONFIG w2) (localApiUrl CONFIG)))"
    using assms(4) by (simp add: delivered_def)
  have "fst (generateReportData CONFIG w1) = fst (generateReportData CONFIG w2)"
    by (simp add: generateReportData_run r)
  moreover have "cycle_events CONFIG w1 = cycle_events CONFIG w2"
    unfolding cycle_events_run Let_def o1 o2 d1 d2 by (simp add: r)
  moreover have "fst (primary_attempt CONFIG w1) = fst (primary_attempt CONFIG w2)"
    by (simp add: fst_primary_attempt d1)
  moreover have "fst (fallback_attempt CONFIG w1) = fst (fallback_attempt CONFIG w2)"
    by (simp add: fst_fallback_attempt d2)
  moreover have "fst (executeAgent CONFIG w1) = fst (executeAgent CONFIG w2)"
    by (simp add: executeAgent_run console_def)
  ultimately show ?thesis by simp
qed

theorem executeAgent_deterministic_witness:
  "hostname (example_page http_500_then_200) = hostname other_page
   \<and> now (example_page http_500_then_200) = now other_page
   \<and> fetch_count (example_page http_500_then_200) \<noteq> fetch_count other_page
   \<and> trace (example_page http_500_then_200) \<noteq> trace other_page
   \<and> cycle_events slot603_CONFIG (example_page http_500_then_200) =
       cycle_events slot603_CONFIG other_page
   \<and> fst (executeAgent slot603_CONFIG (example_page http_500_then_200)) =
       fst (executeAgent slot603_CONFIG other_page)"
proof -
  have h: "hostname (example_page http_500_then_200) = hostname other_page"
    and n: "now (example_page http_500_then_200) = now other_page"
    and f: "fetch_count (example_page http_500_then_200) \<noteq> fetch_count other_page"
    and t: "trace (example_page http_500_then_200) \<noteq> trace other_page"
    by (simp_all add: example_page_def other_page_def)
  have x1: "outcome (http (example_page http_500_then_200)
                      (fetch_count (example_page http_500_then_200))
                      (report_request (reportData_of slot603_CONFIG
                         (example_page http_500_then_200)) (apiUrl slot603_CONFIG)))
      = outcome (http other_page (fetch_count other_page)
                   (report_request (reportData_of slot603_CONFIG other_page)
                      (apiUrl slot603_CONFIG)))"
    by (simp add: example_page_def other_page_def http_500_then_200_def slot603_CONFIG_def)
  have x2: "outcome (http (example_page http_500_then_200)
                      (Suc (fetch_count (example_page http_500_then_200)))
                      (report_request (reportData_of slot603_CONFIG
                         (example_page http_500_then_200)) (localApiUrl slot603_CONFIG)))
      = outcome (http other_page (Suc (fetch_count other_page))
                   (report_request (reportData_of slot603_CONFIG other_page)
                      (localApiUrl slot603_CONFIG)))"
    by (simp add: example_page_def other_page_def http_500_then_200_def slot603_CONFIG_def)
  from executeAgent_deterministic [OF h n x1 x2] h n f t
  show ?thesis by simp
qed

end
